theory Spec2Isabelle
  imports Complex_Main
begin

section \<open>The IoT device of the edge-offloading simulation (\<^verbatim>\<open>iot_device.py\<close>)\<close>

text \<open>
  Class \<^verbatim>\<open>IoTDevice\<close> is embedded method by method. Python numbers are modelled by
  \<^typ>\<open>real\<close>: \<^verbatim>\<open>/\<close> is true division and raises \<^verbatim>\<open>ZeroDivisionError\<close> on a zero
  divisor, which every model below writes out as a branch; rounding and the special
  values of binary floating point are not modelled. Counters are Python ints.
\<close>

subsection \<open>Data model\<close>

datatype error = ZeroDivisionError | NameError

text \<open>
  \<^verbatim>\<open>config['network']['technologies'][wireless_tech]\<close> and
  \<^verbatim>\<open>config['offloading_policy']\<close>: configuration dictionaries with the fixed keys that
  the methods read.
\<close>

record net_params =
  bandwidth_mbps :: real
  latency_ms :: real
  reliability :: real
  energy_consumption :: real

record policy =
  threshold_battery_level :: real
  threshold_task_size :: real
  threshold_network_quality :: real
  weight_energy :: real
  weight_latency :: real
  weight_cost :: real

text \<open>The attributes that \<^verbatim>\<open>__init__\<close> sets on \<^verbatim>\<open>self\<close>.\<close>

record device =
  device_id :: int
  device_type :: string
  mips :: real
  ram :: real
  battery_capacity :: real
  current_battery :: real
  battery_consumption_rate :: real
  task_generation_rate :: real
  wireless_tech :: string
  mobility :: bool
  location :: "real \<times> real"
  connected_edge_node :: "int option"
  network_params :: net_params
  offloading_policy :: policy
  tasks_generated :: int
  tasks_offloaded :: int
  tasks_processed_locally :: int
  energy_consumed :: real

text \<open>
  Class \<^verbatim>\<open>Task\<close> (module \<^verbatim>\<open>task\<close>) is a collaborator: the record has the attributes
  that the device reads and writes; the attributes written by local execution are
  \<^verbatim>\<open>None\<close> until then.
\<close>

record task =
  task_id :: string
  mips_required :: real
  input_size :: real
  start_time :: "real option"
  completion_time :: "real option"
  executed_on :: "string option"
  status :: string

text \<open>
  An edge node is a collaborator too: the device reads \<^verbatim>\<open>location\<close>, \<^verbatim>\<open>mips\<close>,
  \<^verbatim>\<open>cost_per_mips\<close> and the result of the query \<^verbatim>\<open>get_utilization()\<close>, held here in
  the field \<open>utilization\<close> of the snapshot.
\<close>

record edge_node =
  node_location :: "real \<times> real"
  node_mips :: real
  cost_per_mips :: real
  utilization :: real

subsection \<open>\<^verbatim>\<open>update_battery\<close>\<close>

definition update_battery :: "device \<Rightarrow> real \<Rightarrow> bool \<times> device" where
  "update_battery d time_elapsed =
     (let consumption = battery_consumption_rate d * time_elapsed;
          d1 = d\<lparr>current_battery := current_battery d - consumption\<rparr>;
          d2 = d1\<lparr>energy_consumed := energy_consumed d1 + consumption\<rparr>
      in if current_battery d2 \<le> 0
         then (False, d2\<lparr>current_battery := 0\<rparr>)
         else (True, d2))"

subsection \<open>\<^verbatim>\<open>_select_best_edge_node\<close>\<close>

text \<open>The dictionary lookup \<^verbatim>\<open>{...}.get(self.wireless_tech, 1.0)\<close>.\<close>

definition distance_weight :: "string \<Rightarrow> real" where
  "distance_weight tech =
     (if tech = ''WiFi'' then 1
      else if tech = ''BLE'' then 3 / 2
      else if tech = ''LTE'' then 7 / 10
      else if tech = ''FiveG'' then 1 / 2
      else 1)"

definition distance_to :: "device \<Rightarrow> edge_node \<Rightarrow> real" where
  "distance_to d n =
     sqrt ((fst (location d) - fst (node_location n))\<^sup>2
         + (snd (location d) - snd (node_location n))\<^sup>2)"

definition score :: "device \<Rightarrow> edge_node \<Rightarrow> real" where
  "score d n =
     (let load_factor = utilization n
      in distance_to d n * distance_weight (wireless_tech d) + load_factor * 100)"

text \<open>
  The loop state is \<open>(best_node, best_score)\<close>; \<open>best_score = None\<close> stands for the
  initial \<^verbatim>\<open>float('inf')\<close>, below which every score lies.
\<close>

definition score_less :: "real \<Rightarrow> real option \<Rightarrow> bool" where
  "score_less s best_score = (case best_score of None \<Rightarrow> True | Some b \<Rightarrow> s < b)"

fun select_loop ::
  "device \<Rightarrow> edge_node list \<Rightarrow> edge_node option \<times> real option \<Rightarrow> edge_node option \<times> real option"
where
  "select_loop d [] st = st"
| "select_loop d (node # rest) (best_node, best_score) =
     (if score_less (score d node) best_score
      then select_loop d rest (Some node, Some (score d node))
      else select_loop d rest (best_node, best_score))"

definition select_best_edge_node :: "device \<Rightarrow> edge_node list \<Rightarrow> edge_node option" where
  "select_best_edge_node d edge_nodes =
     (if edge_nodes = [] then None
      else fst (select_loop d edge_nodes (None, None)))"

subsection \<open>\<^verbatim>\<open>should_offload_task\<close>\<close>

text \<open>
  The utility comparison that starts at \<^verbatim>\<open>best_edge_node = ...\<close>; the local completion
  time has been computed before. An edge node object is truthy.
\<close>

definition compare_utility :: "device \<Rightarrow> task \<Rightarrow> edge_node list \<Rightarrow> real \<Rightarrow> error + bool" where
  "compare_utility d t edge_nodes local_completion_time =
     (case select_best_edge_node d edge_nodes of
        None \<Rightarrow> Inr False
      | Some best_edge_node \<Rightarrow>
          let latency_sec = latency_ms (network_params d) / 1000 in
          if bandwidth_mbps (network_params d) * 125000 = 0 then Inl ZeroDivisionError
          else
            let transfer_time = input_size t / (bandwidth_mbps (network_params d) * 125000) in
            if node_mips best_edge_node = 0 then Inl ZeroDivisionError
            else
              let edge_processing_time = mips_required t / node_mips best_edge_node;
                  edge_completion_time = latency_sec + transfer_time + edge_processing_time;
                  local_energy = (mips_required t / mips d) * battery_consumption_rate d * 2;
                  edge_energy = transfer_time * energy_consumption (network_params d);
                  local_utility =
                    weight_energy (offloading_policy d) * local_energy
                    + weight_latency (offloading_policy d) * local_completion_time;
                  edge_utility =
                    weight_energy (offloading_policy d) * edge_energy
                    + weight_latency (offloading_policy d) * edge_completion_time
                    + weight_cost (offloading_policy d)
                        * (mips_required t * cost_per_mips best_edge_node)
              in Inr (edge_utility < local_utility))"

definition payload_rule :: "device \<Rightarrow> task \<Rightarrow> bool" where
  "payload_rule d t =
     (input_size t > threshold_task_size (offloading_policy d) \<and>
      (let network_quality =
             reliability (network_params d) * (bandwidth_mbps (network_params d) / 100)
       in network_quality > threshold_network_quality (offloading_policy d)))"

definition should_offload_task :: "device \<Rightarrow> task \<Rightarrow> edge_node list \<Rightarrow> error + bool" where
  "should_offload_task d t edge_nodes =
     (if battery_capacity d = 0 then Inl ZeroDivisionError
      else if current_battery d / battery_capacity d
                < threshold_battery_level (offloading_policy d) then Inr True
      else if mips_required t > mips d then Inr True
      else if payload_rule d t then Inr True
      else if mips d = 0 then Inl ZeroDivisionError
      else compare_utility d t edge_nodes (mips_required t / mips d))"

subsection \<open>\<^verbatim>\<open>process_task_locally\<close>\<close>

text \<open>\<^verbatim>\<open>str\<close> of an int, as the f-string \<^verbatim>\<open>f"device_{self.device_id}"\<close> renders it.\<close>

definition digit_char :: "nat \<Rightarrow> char" where
  "digit_char n = char_of (48 + n)"

function str_nat :: "nat \<Rightarrow> string" where
  "str_nat n =
     (if n < 10 then [digit_char n] else str_nat (n div 10) @ [digit_char (n mod 10)])"
  by pat_completeness auto
termination
  by (relation "measure id") auto

declare str_nat.simps [simp del]

definition str_int :: "int \<Rightarrow> string" where
  "str_int i = (if i < 0 then CHR ''-'' # str_nat (nat (- i)) else str_nat (nat i))"

text \<open>
  The method returns the completion time and mutates both the task and the device; the
  model returns the three. The battery is charged by plain subtraction.
\<close>

definition process_task_locally ::
  "device \<Rightarrow> task \<Rightarrow> real \<Rightarrow> error + (real \<times> device \<times> task)" where
  "process_task_locally d t current_time =
     (if mips d = 0 then Inl ZeroDivisionError
      else
        let execution_time = mips_required t / mips d;
            t1 = t\<lparr>start_time := Some current_time\<rparr>;
            t2 = t1\<lparr>completion_time := Some (current_time + execution_time)\<rparr>;
            t3 = t2\<lparr>executed_on := Some (''device_'' @ str_int (device_id d))\<rparr>;
            t4 = t3\<lparr>status := ''processing''\<rparr>;
            d1 = d\<lparr>tasks_processed_locally := tasks_processed_locally d + 1\<rparr>;
            energy_used = execution_time * battery_consumption_rate d * 2;
            d2 = d1\<lparr>current_battery := current_battery d1 - energy_used\<rparr>;
            d3 = d2\<lparr>energy_consumed := energy_consumed d2 + energy_used\<rparr>
        in Inr (current_time + execution_time, d3, t4))"

subsection \<open>\<^verbatim>\<open>update_location\<close>\<close>

text \<open>
  The draw \<^verbatim>\<open>random.uniform(0, 2 * 3.14159)\<close> is the explicit input \<open>angle\<close>. The module
  imports \<^verbatim>\<open>random\<close>, \<^verbatim>\<open>time\<close>, \<^verbatim>\<open>json\<close>, \<^verbatim>\<open>logging\<close> and \<^verbatim>\<open>Task\<close>, and never
  \<^verbatim>\<open>math\<close>: for a mobile device the evaluation of \<^verbatim>\<open>math.cos(angle)\<close> raises
  \<^verbatim>\<open>NameError\<close>, after \<^verbatim>\<open>speed\<close>, \<^verbatim>\<open>distance\<close> and \<^verbatim>\<open>angle\<close> have been bound and before
  \<^verbatim>\<open>self.location\<close> is assigned.
\<close>

definition update_location :: "device \<Rightarrow> real \<Rightarrow> real \<Rightarrow> error + device" where
  "update_location d time_elapsed angle =
     (if \<not> mobility d then Inr d
      else
        let speed = 5 :: real;
            distance = speed * time_elapsed
        in Inl NameError)"

subsection \<open>Runs of \<^verbatim>\<open>update_battery\<close>\<close>

text \<open>The driver calls \<^verbatim>\<open>update_battery\<close> once per tick; the return value is dropped.\<close>

fun run_update_battery :: "device \<Rightarrow> real list \<Rightarrow> device" where
  "run_update_battery d [] = d"
| "run_update_battery d (time_elapsed # rest) =
     run_update_battery (snd (update_battery d time_elapsed)) rest"

subsection \<open>The energy model in the words of the specification\<close>

text \<open>
  \<open>charge(activityMultiplier, elapsedTime)\<close> as the specification describes it:
  the consumption is \<open>baseRate \<times> activityMultiplier \<times> elapsedTime\<close>, subtracted from
  the level and added to the cumulative counter; a level at or below 0 is clamped to 0
  and reported by \<open>False\<close>.
\<close>

definition charge_spec :: "device \<Rightarrow> real \<Rightarrow> real \<Rightarrow> bool \<times> device" where
  "charge_spec d activityMultiplier elapsedTime =
     (let consumption = battery_consumption_rate d * activityMultiplier * elapsedTime;
          level = current_battery d - consumption;
          counter = energy_consumed d + consumption
      in if level \<le> 0
         then (False, d\<lparr>current_battery := 0, energy_consumed := counter\<rparr>)
         else (True, d\<lparr>current_battery := level, energy_consumed := counter\<rparr>))"

subsection \<open>The methods as programs on the state of the simulation\<close>

text \<open>
  What a method call can reach: the device \<^verbatim>\<open>self\<close>, the task, the list of edge nodes
  (a node is referred to by its index), and the generator of module \<^verbatim>\<open>random\<close>, given
  by the sequence of its draws in \<open>[0, 1)\<close> and the number of draws made so far.
\<close>

record world =
  the_device :: device
  the_task :: task
  the_nodes :: "edge_node list"
  draws :: "nat \<Rightarrow> real"
  drawn :: nat

text \<open>
  A program takes the state and returns a result or an exception, with the state it
  leaves. \<open>read\<close> evaluates an attribute, \<open>assign\<close> writes one, \<open>seq\<close> runs a program and
  then the rest with its result, and an exception ends the run with the state reached.
\<close>

type_synonym 'a prog = "world \<Rightarrow> (error + 'a) \<times> world"

definition ret :: "'a \<Rightarrow> 'a prog" where
  "ret x w = (Inr x, w)"

definition raise :: "error \<Rightarrow> 'a prog" where
  "raise e w = (Inl e, w)"

definition seq :: "'a prog \<Rightarrow> ('a \<Rightarrow> 'b prog) \<Rightarrow> 'b prog" where
  "seq m f w = (case m w of (Inl e, w') \<Rightarrow> (Inl e, w') | (Inr x, w') \<Rightarrow> f x w')"

definition read :: "(world \<Rightarrow> 'a) \<Rightarrow> 'a prog" where
  "read g w = (Inr (g w), w)"

definition assign :: "(world \<Rightarrow> world) \<Rightarrow> unit prog" where
  "assign u w = (Inr (), u w)"

definition py_div :: "real \<Rightarrow> real \<Rightarrow> real prog" where
  "py_div a b = (if b = 0 then raise ZeroDivisionError else ret (a / b))"

definition random_uniform :: "real \<Rightarrow> real \<Rightarrow> real prog" where
  "random_uniform a b w =
     (Inr (a + (b - a) * draws w (drawn w)), w\<lparr>drawn := drawn w + 1\<rparr>)"

text \<open>
  Modelled from the spec: \<^verbatim>\<open>EdgeNode.get_utilization()\<close>, whose class is not part of the
  module. The specification has a node expose \<open>a utilization query\<close>: the call returns the
  utilization of the node and changes nothing. The programs below take the query as a
  parameter; this is the instance used on the example objects.
\<close>

definition get_utilization :: "nat \<Rightarrow> real prog" where
  "get_utilization i = read (\<lambda>w. utilization (the_nodes w ! i))"

text \<open>
  \<^verbatim>\<open>_select_best_edge_node\<close> and \<^verbatim>\<open>should_offload_task\<close> statement by statement, every
  attribute access a \<open>read\<close> and every \<^verbatim>\<open>/\<close> a \<open>py_div\<close>, in the order of evaluation of
  the source. The argument \<^verbatim>\<open>edge_nodes\<close> is the node list of the state.
\<close>

fun select_loop_m ::
  "(nat \<Rightarrow> real prog) \<Rightarrow> nat list \<Rightarrow> nat option \<times> real option
    \<Rightarrow> (nat option \<times> real option) prog"
where
  "select_loop_m get_util [] st = ret st"
| "select_loop_m get_util (i # rest) (best_node, best_score) =
     seq (read (\<lambda>w. location (the_device w))) (\<lambda>self_location.
     seq (read (\<lambda>w. node_location (the_nodes w ! i))) (\<lambda>node_location.
     let distance = sqrt ((fst self_location - fst node_location)\<^sup>2
                        + (snd self_location - snd node_location)\<^sup>2) in
     seq (get_util i) (\<lambda>load_factor.
     seq (read (\<lambda>w. wireless_tech (the_device w))) (\<lambda>tech.
     let score = distance * distance_weight tech + load_factor * 100 in
     if score_less score best_score
     then select_loop_m get_util rest (Some i, Some score)
     else select_loop_m get_util rest (best_node, best_score)))))"

definition select_best_edge_node_m :: "(nat \<Rightarrow> real prog) \<Rightarrow> nat option prog" where
  "select_best_edge_node_m get_util =
     seq (read (\<lambda>w. length (the_nodes w))) (\<lambda>n.
     if n = 0 then ret None
     else seq (select_loop_m get_util [0..<n] (None, None)) (\<lambda>st. ret (fst st)))"

definition should_offload_task_m :: "(nat \<Rightarrow> real prog) \<Rightarrow> bool prog" where
  "should_offload_task_m get_util =
     seq (read (\<lambda>w. current_battery (the_device w))) (\<lambda>current.
     seq (read (\<lambda>w. battery_capacity (the_device w))) (\<lambda>capacity.
     seq (py_div current capacity) (\<lambda>fraction.
     seq (read (\<lambda>w. threshold_battery_level (offloading_policy (the_device w)))) (\<lambda>threshold.
     if fraction < threshold then ret True
     else
     seq (read (\<lambda>w. mips_required (the_task w))) (\<lambda>required.
     seq (read (\<lambda>w. mips (the_device w))) (\<lambda>self_mips.
     if required > self_mips then ret True
     else
     seq (read (\<lambda>w. input_size (the_task w))) (\<lambda>size.
     seq (read (\<lambda>w. threshold_task_size (offloading_policy (the_device w)))) (\<lambda>size_threshold.
     seq (if size > size_threshold
           then
             seq (read (\<lambda>w. reliability (network_params (the_device w)))) (\<lambda>rel.
             seq (read (\<lambda>w. bandwidth_mbps (network_params (the_device w)))) (\<lambda>bw.
             let network_quality = rel * (bw / 100) in
             seq (read (\<lambda>w. threshold_network_quality (offloading_policy (the_device w))))
               (\<lambda>quality_threshold. ret (network_quality > quality_threshold))))
           else ret False) (\<lambda>large_on_good_link.
     if large_on_good_link then ret True
     else
     seq (py_div required self_mips) (\<lambda>local_completion_time.
     seq (select_best_edge_node_m get_util) (\<lambda>best_edge_node.
     case best_edge_node of
       None \<Rightarrow> ret False
     | Some best \<Rightarrow>
         seq (read (\<lambda>w. latency_ms (network_params (the_device w)))) (\<lambda>latency.
         let latency_sec = latency / 1000 in
         seq (read (\<lambda>w. bandwidth_mbps (network_params (the_device w)))) (\<lambda>bw.
         seq (py_div size (bw * 125000)) (\<lambda>transfer_time.
         seq (read (\<lambda>w. node_mips (the_nodes w ! best))) (\<lambda>edge_mips.
         seq (py_div required edge_mips) (\<lambda>edge_processing_time.
         let edge_completion_time = latency_sec + transfer_time + edge_processing_time in
         seq (py_div required self_mips) (\<lambda>local_time.
         seq (read (\<lambda>w. battery_consumption_rate (the_device w))) (\<lambda>rate.
         let local_energy = local_time * rate * 2 in
         seq (read (\<lambda>w. energy_consumption (network_params (the_device w)))) (\<lambda>link_energy.
         let edge_energy = transfer_time * link_energy in
         seq (read (\<lambda>w. offloading_policy (the_device w))) (\<lambda>pol.
         seq (read (\<lambda>w. cost_per_mips (the_nodes w ! best))) (\<lambda>cost.
         let local_utility =
               weight_energy pol * local_energy + weight_latency pol * local_completion_time;
             edge_utility =
               weight_energy pol * edge_energy + weight_latency pol * edge_completion_time
               + weight_cost pol * (required * cost)
         in ret (edge_utility < local_utility))))))))))))))))))))))"

text \<open>
  The two methods that do change the state, as calls on it: \<^verbatim>\<open>update_battery\<close> assigns
  the device, and \<^verbatim>\<open>update_location\<close> draws the angle by
  \<^verbatim>\<open>random.uniform(0, 2 * 3.14159)\<close> before it evaluates \<^verbatim>\<open>math.cos\<close>.
\<close>

definition update_battery_m :: "real \<Rightarrow> bool prog" where
  "update_battery_m time_elapsed =
     seq (read the_device) (\<lambda>self.
     case update_battery self time_elapsed of
       (ok, self') \<Rightarrow> seq (assign (\<lambda>w. w\<lparr>the_device := self'\<rparr>)) (\<lambda>_. ret ok))"

definition update_location_m :: "real \<Rightarrow> unit prog" where
  "update_location_m time_elapsed =
     seq (read the_device) (\<lambda>self.
     if \<not> mobility self then ret ()
     else
       seq (random_uniform 0 (2 * (314159 / 100000))) (\<lambda>angle.
       case update_location self time_elapsed angle of
         Inl e \<Rightarrow> raise e
       | Inr self' \<Rightarrow> assign (\<lambda>w. w\<lparr>the_device := self'\<rparr>)))"

subsection \<open>Example objects\<close>

definition wifi :: net_params where
  "wifi = \<lparr>bandwidth_mbps = 50, latency_ms = 10, reliability = 9 / 10,
           energy_consumption = 1 / 2\<rparr>"

definition policy0 :: policy where
  "policy0 = \<lparr>threshold_battery_level = 1 / 5, threshold_task_size = 1000000,
              threshold_network_quality = 7 / 10, weight_energy = 2 / 5,
              weight_latency = 2 / 5, weight_cost = 1 / 5\<rparr>"

text \<open>A freshly constructed device: full battery, all counters zero.\<close>

definition device0 :: device where
  "device0 = \<lparr>device_id = 7, device_type = ''sensor'', mips = 1000, ram = 256,
              battery_capacity = 1000, current_battery = 1000,
              battery_consumption_rate = 1, task_generation_rate = 1 / 10,
              wireless_tech = ''WiFi'', mobility = False, location = (0, 0),
              connected_edge_node = None, network_params = wifi,
              offloading_policy = policy0, tasks_generated = 0, tasks_offloaded = 0,
              tasks_processed_locally = 0, energy_consumed = 0\<rparr>"

definition task0 :: task where
  "task0 = \<lparr>task_id = ''7_0'', mips_required = 500, input_size = 1000,
            start_time = None, completion_time = None, executed_on = None,
            status = ''created''\<rparr>"

definition node0 :: edge_node where
  "node0 = \<lparr>node_location = (0, 0), node_mips = 10000, cost_per_mips = 1 / 1000,
            utilization = 1 / 2\<rparr>"

definition node1 :: edge_node where
  "node1 = \<lparr>node_location = (3, 4), node_mips = 20000, cost_per_mips = 1 / 500,
            utilization = 1 / 5\<rparr>"

definition node2 :: edge_node where
  "node2 = \<lparr>node_location = (0, 0), node_mips = 5000, cost_per_mips = 1 / 1000,
            utilization = 1 / 4\<rparr>"

text \<open>
  A device that weighs only latency, on a link without latency: with an empty payload and
  an edge node as fast as the device, both utilities are the local execution time.
\<close>

definition tie_device :: device where
  "tie_device = device0\<lparr>network_params := wifi\<lparr>latency_ms := 0\<rparr>,
     offloading_policy := policy0\<lparr>weight_energy := 0, weight_latency := 1, weight_cost := 0\<rparr>\<rparr>"

text \<open>Two states with the same objects and different states of the generator.\<close>

definition world0 :: world where
  "world0 = \<lparr>the_device = device0, the_task = task0, the_nodes = [node0, node1],
             draws = (\<lambda>k. 0), drawn = 0\<rparr>"

definition world1 :: world where
  "world1 = \<lparr>the_device = device0, the_task = task0, the_nodes = [node0, node1],
             draws = (\<lambda>k. 1 / 2), drawn = 3\<rparr>"

section \<open>Properties\<close>

subsection \<open>The selection loop\<close>

text \<open>
  Started on a first candidate \<open>b\<close>, the loop ends on a node \<open>r\<close> of \<open>b # ns\<close> that scores
  strictly less than everything before it and at most as much as everything after it.
\<close>

lemma select_loop_first_min:
  "\<exists>r pre post.
     select_loop d ns (Some b, Some (score d b)) = (Some r, Some (score d r))
     \<and> b # ns = pre @ r # post
     \<and> (\<forall>x\<in>set pre. score d r < score d x)
     \<and> (\<forall>x\<in>set post. score d r \<le> score d x)"
proof (induction ns arbitrary: b)
  case Nil
  have "b # [] = [] @ b # []" by simp
  then show ?case by fastforce
next
  case (Cons node rest)
  show ?case
  proof (cases "score d node < score d b")
    case True
    from Cons.IH [of node] obtain r pre post where
      res: "select_loop d rest (Some node, Some (score d node)) = (Some r, Some (score d r))"
      and split: "node # rest = pre @ r # post"
      and before: "\<forall>x\<in>set pre. score d r < score d x"
      and after: "\<forall>x\<in>set post. score d r \<le> score d x"
      by blast
    have "node \<in> set (pre @ r # post)"
      using split by (metis list.set_intros(1))
    then have "score d r \<le> score d node"
      using before after by auto
    then have lt: "score d r < score d b"
      using True by simp
    have "select_loop d (node # rest) (Some b, Some (score d b)) = (Some r, Some (score d r))"
      using True res by (simp add: score_less_def)
    moreover have "b # node # rest = (b # pre) @ r # post"
      using split by simp
    moreover have "\<forall>x\<in>set (b # pre). score d r < score d x"
      using before lt by simp
    ultimately show ?thesis
      using after by blast
  next
    case False
    from Cons.IH [of b] obtain r pre post where
      res: "select_loop d rest (Some b, Some (score d b)) = (Some r, Some (score d r))"
      and split: "b # rest = pre @ r # post"
      and before: "\<forall>x\<in>set pre. score d r < score d x"
      and after: "\<forall>x\<in>set post. score d r \<le> score d x"
      by blast
    have loop: "select_loop d (node # rest) (Some b, Some (score d b)) = (Some r, Some (score d r))"
      using False res by (simp add: score_less_def)
    show ?thesis
    proof (cases pre)
      case Nil
      then have rb: "r = b" and post: "post = rest"
        using split by simp_all
      have "b # node # rest = [] @ r # (node # rest)"
        using rb by simp
      moreover have "\<forall>x\<in>set (node # rest). score d r \<le> score d x"
        using after False rb post by auto
      ultimately show ?thesis
        using loop by (metis empty_iff empty_set)
    next
      case (Cons p pre')
      then have pb: "p = b" and rest: "rest = pre' @ r # post"
        using split by simp_all
      have "score d r < score d b"
        using before Cons pb by simp
      then have "score d r < score d node"
        using False by simp
      then have "\<forall>x\<in>set (b # node # pre'). score d r < score d x"
        using before Cons pb by simp
      moreover have "b # node # rest = (b # node # pre') @ r # post"
        using rest by simp
      ultimately show ?thesis
        using loop after by blast
    qed
  qed
qed

lemma select_best_first_min:
  assumes "ns \<noteq> []"
  shows "\<exists>r pre post.
     select_best_edge_node d ns = Some r
     \<and> ns = pre @ r # post
     \<and> (\<forall>x\<in>set pre. score d r < score d x)
     \<and> (\<forall>x\<in>set post. score d r \<le> score d x)"
proof -
  from assms obtain b rest where ns: "ns = b # rest"
    by (cases ns) auto
  have start: "select_best_edge_node d ns = fst (select_loop d rest (Some b, Some (score d b)))"
    using ns by (simp add: select_best_edge_node_def score_less_def)
  from select_loop_first_min [of d rest b] obtain r pre post where
    res: "select_loop d rest (Some b, Some (score d b)) = (Some r, Some (score d r))"
    and split: "b # rest = pre @ r # post"
    and before: "\<forall>x\<in>set pre. score d r < score d x"
    and after: "\<forall>x\<in>set post. score d r \<le> score d x"
    by blast
  have "select_best_edge_node d ns = Some r"
    using start res by simp
  moreover have "ns = pre @ r # post"
    using ns split by simp
  ultimately show ?thesis
    using before after by blast
qed

subsection \<open>Programs that only read\<close>

text \<open>Laws of sequencing, for running a program on a state.\<close>

lemma seq_read [simp]: "seq (read g) f w = f (g w) w"
  by (simp add: seq_def read_def)

lemma seq_ret [simp]: "seq (ret x) f w = f x w"
  by (simp add: seq_def ret_def)

lemma seq_raise [simp]: "seq (raise e) f w = (Inl e, w)"
  by (simp add: seq_def raise_def)

lemma seq_py_div [simp]:
  "seq (py_div a b) f w = (if b = 0 then (Inl ZeroDivisionError, w) else f (a / b) w)"
  by (simp add: py_div_def)

lemma seq_if [simp]:
  "seq (if c then m else m') f = (if c then seq m f else seq m' f)"
  by simp

lemma seq_assoc [simp]: "seq (seq m f) g = seq m (\<lambda>x. seq (f x) g)"
  by (rule ext) (simp add: seq_def split: prod.split sum.split)

lemma seq_run: "m w = (Inr x, w') \<Longrightarrow> seq m f w = f x w'"
  by (simp add: seq_def)

text \<open>
  With a utilization query that only reads, the programs of the selection and of the
  decision return what the functions \<open>select_best_edge_node\<close> and \<open>should_offload_task\<close>
  compute from the objects of the state, and leave the state as it was.
\<close>

lemma select_loop_m_reads:
  assumes query: "\<And>i w. get_util i w = (Inr (utilization (the_nodes w ! i)), w)"
    and "\<forall>i\<in>set is. i < length (the_nodes w)"
  shows "\<exists>bi' bs'.
    select_loop_m get_util is (bi, bs) w = (Inr (bi', bs'), w)
    \<and> select_loop (the_device w) (map ((!) (the_nodes w)) is)
         (map_option ((!) (the_nodes w)) bi, bs)
       = (map_option ((!) (the_nodes w)) bi', bs')"
  using assms(2)
proof (induction "is" arbitrary: bi bs)
  case Nil
  show ?case by (simp add: ret_def)
next
  case (Cons i rest)
  then have rest: "\<forall>i\<in>set rest. i < length (the_nodes w)"
    by simp
  have util: "seq (get_util i) f w = f (utilization (the_nodes w ! i)) w"
    for f :: "real \<Rightarrow> (nat option \<times> real option) prog"
    using query [of i w] by (rule seq_run)
  have sc: "sqrt ((fst (location (the_device w)) - fst (node_location (the_nodes w ! i)))\<^sup>2
              + (snd (location (the_device w)) - snd (node_location (the_nodes w ! i)))\<^sup>2)
            * distance_weight (wireless_tech (the_device w))
            + utilization (the_nodes w ! i) * 100
          = score (the_device w) (the_nodes w ! i)"
    by (simp add: score_def distance_to_def)
  show ?case
  proof (cases "score_less (score (the_device w) (the_nodes w ! i)) bs")
    case True
    from Cons.IH [OF rest, of "Some i" "Some (score (the_device w) (the_nodes w ! i))"]
    show ?thesis
      using True by (simp add: util Let_def sc)
  next
    case False
    from Cons.IH [OF rest, of bi bs]
    show ?thesis
      using False by (simp add: util Let_def sc)
  qed
qed

lemma select_best_edge_node_m_reads:
  assumes query: "\<And>i w. get_util i w = (Inr (utilization (the_nodes w ! i)), w)"
  shows "\<exists>best. select_best_edge_node_m get_util w = (Inr best, w)
     \<and> map_option ((!) (the_nodes w)) best
       = select_best_edge_node (the_device w) (the_nodes w)"
proof (cases "the_nodes w = []")
  case True
  then show ?thesis
    by (simp add: select_best_edge_node_m_def select_best_edge_node_def ret_def)
next
  case False
  have "\<forall>i\<in>set [0..<length (the_nodes w)]. i < length (the_nodes w)"
    by simp
  from select_loop_m_reads [of get_util, OF query this, of None None] obtain bi' bs' where
    loop: "select_loop_m get_util [0..<length (the_nodes w)] (None, None) w
             = (Inr (bi', bs'), w)"
    and pure: "select_loop (the_device w) (map ((!) (the_nodes w)) [0..<length (the_nodes w)])
         (None, None) = (map_option ((!) (the_nodes w)) bi', bs')"
    by auto
  have "select_best_edge_node_m get_util w = (Inr bi', w)"
    using False
    by (simp add: select_best_edge_node_m_def ret_def
        seq_run [of "select_loop_m get_util [0..<length (the_nodes w)] (None, None)", OF loop])
  moreover have "map_option ((!) (the_nodes w)) bi'
       = select_best_edge_node (the_device w) (the_nodes w)"
    using False pure by (simp add: select_best_edge_node_def map_nth)
  ultimately show ?thesis
    by blast
qed

lemma should_offload_task_m_reads:
  assumes query: "\<And>i w. get_util i w = (Inr (utilization (the_nodes w ! i)), w)"
  shows "should_offload_task_m get_util w
   = (should_offload_task (the_device w) (the_task w) (the_nodes w), w)"
proof -
  from select_best_edge_node_m_reads [of get_util w, OF query] obtain best where
    run: "select_best_edge_node_m get_util w = (Inr best, w)"
    and best: "map_option ((!) (the_nodes w)) best
       = select_best_edge_node (the_device w) (the_nodes w)"
    by blast
  have sel: "seq (select_best_edge_node_m get_util) f w = f best w"
    for f :: "nat option \<Rightarrow> bool prog"
    using run by (rule seq_run)
  show ?thesis
  proof (cases best)
    case None
    then have "select_best_edge_node (the_device w) (the_nodes w) = None"
      using best by simp
    then show ?thesis
      using None
      by (simp add: should_offload_task_m_def should_offload_task_def payload_rule_def
          compare_utility_def sel Let_def ret_def)
  next
    case (Some i)
    then have "select_best_edge_node (the_device w) (the_nodes w) = Some (the_nodes w ! i)"
      using best by simp
    then show ?thesis
      using Some
      by (simp add: should_offload_task_m_def should_offload_task_def payload_rule_def
          compare_utility_def sel Let_def ret_def)
  qed
qed

subsection \<open>Evaluations on the example objects\<close>

lemma score_node0: "score device0 node0 = 50"
  by (simp add: score_def distance_to_def device0_def node0_def distance_weight_def)

lemma score_node1: "score device0 node1 = 25"
  by (simp add: score_def distance_to_def device0_def node1_def distance_weight_def
      real_sqrt_unique)

lemma score_node2: "score device0 node2 = 25"
  by (simp add: score_def distance_to_def device0_def node2_def distance_weight_def)

lemma str_int_7: "str_int 7 = ''7''"
  by code_simp

lemma select_best_node0_node1: "select_best_edge_node device0 [node0, node1] = Some node1"
  by (simp add: select_best_edge_node_def score_less_def score_node0 score_node1)

lemma select_best_single: "select_best_edge_node d [n] = Some n"
  by (simp add: select_best_edge_node_def score_less_def)

text \<open>An exact tie of the two utilities keeps the task on the device.\<close>

lemma utility_tie_runs_locally:
  "should_offload_task tie_device (task0\<lparr>input_size := 0\<rparr>) [node0\<lparr>node_mips := 1000\<rparr>] = Inr False"
  by (simp add: should_offload_task_def compare_utility_def payload_rule_def select_best_single
      tie_device_def device0_def task0_def policy0_def wifi_def node0_def)

lemma get_utilization_query:
  "get_utilization i w = (Inr (utilization (the_nodes w ! i)), w)"
  by (simp add: get_utilization_def read_def)

lemma offload_device0_task0:
  "should_offload_task device0 task0 [node0, node1] = Inr True"
  unfolding should_offload_task_def compare_utility_def select_best_node0_node1
  by (simp add: payload_rule_def device0_def task0_def policy0_def wifi_def node1_def)

text \<open>
  Leaving the state alone is a property of a program, not of the type of programs:
  \<open>update_battery\<close> writes the device, \<open>update_location\<close> advances the generator even
  though it raises, and a draw gives different results in states with the same objects.
\<close>

lemma update_battery_m_writes:
  "update_battery_m 1 world0
   = (Inr True, world0\<lparr>the_device := device0\<lparr>current_battery := 999, energy_consumed := 1\<rparr>\<rparr>)
   \<and> snd (update_battery_m 1 world0) \<noteq> world0"
  by (simp add: update_battery_m_def update_battery_def assign_def seq_def ret_def read_def
      world0_def device0_def Let_def)

lemma update_location_m_draws:
  "update_location_m 1 (world0\<lparr>the_device := device0\<lparr>mobility := True\<rparr>\<rparr>)
   = (Inl NameError, world0\<lparr>the_device := device0\<lparr>mobility := True\<rparr>, drawn := 1\<rparr>)"
  by (simp add: update_location_m_def update_location_def random_uniform_def seq_def
      raise_def read_def world0_def device0_def)

lemma random_uniform_hidden_state:
  "the_device world0 = the_device world1 \<and> the_task world0 = the_task world1
   \<and> the_nodes world0 = the_nodes world1
   \<and> fst (random_uniform 0 1 world0) \<noteq> fst (random_uniform 0 1 world1)"
  by (simp add: random_uniform_def world0_def world1_def)

subsection \<open>The claims\<close>

text \<open>
  C1. A device whose battery fraction \<open>current_battery / battery_capacity\<close> is strictly
  below \<open>threshold_battery_level\<close>, with a positive capacity, offloads every task, for every
  list of candidate nodes, the empty list included.
\<close>

theorem low_battery_forces_offload:
  assumes "battery_capacity d > 0"
    and "current_battery d / battery_capacity d < threshold_battery_level (offloading_policy d)"
  shows "should_offload_task d t edge_nodes = Inr True \<and> should_offload_task d t [] = Inr True"
  using assms by (simp add: should_offload_task_def)

theorem low_battery_forces_offload_witness:
  "battery_capacity (device0\<lparr>current_battery := 100\<rparr>) > 0
   \<and> current_battery (device0\<lparr>current_battery := 100\<rparr>)
       / battery_capacity (device0\<lparr>current_battery := 100\<rparr>)
     < threshold_battery_level (offloading_policy (device0\<lparr>current_battery := 100\<rparr>))
   \<and> should_offload_task (device0\<lparr>current_battery := 100\<rparr>) task0 [] = Inr True"
proof -
  have cap: "battery_capacity (device0\<lparr>current_battery := 100\<rparr>) > 0"
    by (simp add: device0_def)
  have low: "current_battery (device0\<lparr>current_battery := 100\<rparr>)
       / battery_capacity (device0\<lparr>current_battery := 100\<rparr>)
     < threshold_battery_level (offloading_policy (device0\<lparr>current_battery := 100\<rparr>))"
    by (simp add: device0_def policy0_def)
  from low_battery_forces_offload [OF cap low, of task0 "[]"] cap low
  show ?thesis by simp
qed

text \<open>
  C2. The battery level does not stay in \<open>[0, battery_capacity]\<close>: \<open>process_task_locally\<close>
  subtracts the energy of the execution without the clamp that \<open>update_battery\<close> applies.
  The device of capacity 1000 that has idled for 999 seconds is at level 1; a task of one
  second of local execution then leaves it at level \<open>-1\<close>.
\<close>

theorem process_task_locally_negative_battery:
  "run_update_battery device0 [999] = device0\<lparr>current_battery := 1, energy_consumed := 999\<rparr>
   \<and> process_task_locally (run_update_battery device0 [999])
        (task0\<lparr>mips_required := 1000\<rparr>) 999
     = Inr (1000,
         device0\<lparr>current_battery := - 1, tasks_processed_locally := 1,
                 energy_consumed := 1001\<rparr>,
         task0\<lparr>mips_required := 1000, start_time := Some 999,
               completion_time := Some 1000,
               executed_on := Some (''device_'' @ str_int 7), status := ''processing''\<rparr>)"
  by (simp add: process_task_locally_def update_battery_def device0_def task0_def Let_def)

text \<open>
  C3. As stated the claim fails where a division of the comparison has a zero divisor:
  the method raises \<^verbatim>\<open>ZeroDivisionError\<close> instead of returning a boolean. The three
  inputs below meet the conditions of the claim: a link of bandwidth 0 with a best node, a
  best node of 0 MIPS, and a device of 0 MIPS with a task of 0 MIPS and no candidate.
\<close>

theorem utility_comparison_counterexample:
  "battery_capacity device0 \<noteq> 0
   \<and> \<not> current_battery device0 / battery_capacity device0
        < threshold_battery_level (offloading_policy device0)
   \<and> mips_required task0 \<le> mips device0
   \<and> input_size task0 \<le> threshold_task_size (offloading_policy device0)
   \<and> select_best_edge_node (device0\<lparr>network_params := wifi\<lparr>bandwidth_mbps := 0\<rparr>\<rparr>) [node0]
       = Some node0
   \<and> should_offload_task (device0\<lparr>network_params := wifi\<lparr>bandwidth_mbps := 0\<rparr>\<rparr>) task0 [node0]
       = Inl ZeroDivisionError
   \<and> select_best_edge_node device0 [node0\<lparr>node_mips := 0\<rparr>] = Some (node0\<lparr>node_mips := 0\<rparr>)
   \<and> should_offload_task device0 task0 [node0\<lparr>node_mips := 0\<rparr>] = Inl ZeroDivisionError
   \<and> mips_required (task0\<lparr>mips_required := 0\<rparr>) \<le> mips (device0\<lparr>mips := 0\<rparr>)
   \<and> select_best_edge_node (device0\<lparr>mips := 0\<rparr>) [] = None
   \<and> should_offload_task (device0\<lparr>mips := 0\<rparr>) (task0\<lparr>mips_required := 0\<rparr>) []
       = Inl ZeroDivisionError"
  by (simp add: should_offload_task_def compare_utility_def payload_rule_def
      select_best_edge_node_def score_less_def device0_def task0_def policy0_def wifi_def
      node0_def)

text \<open>
  C3, amended. Let the battery capacity and the device's \<open>mips\<close> be non-zero, the battery
  fraction at or above \<open>threshold_battery_level\<close>, the task's \<open>mips_required\<close> at most the
  device's \<open>mips\<close>, and the payload rule silent (\<open>input_size\<close> at most
  \<open>threshold_task_size\<close>, or network quality at most \<open>threshold_network_quality\<close>). If
  there is no best node the method returns false. If there is one, with non-zero
  \<open>bandwidth_mbps\<close> and non-zero node \<open>mips\<close>, the method returns the truth value of the
  strict comparison of the edge utility with the local utility, so a tie gives false.
\<close>

theorem utility_comparison:
  assumes "battery_capacity d \<noteq> 0"
    and "threshold_battery_level (offloading_policy d) \<le> current_battery d / battery_capacity d"
    and "mips_required t \<le> mips d"
    and "mips d \<noteq> 0"
    and "input_size t \<le> threshold_task_size (offloading_policy d)
         \<or> reliability (network_params d) * (bandwidth_mbps (network_params d) / 100)
             \<le> threshold_network_quality (offloading_policy d)"
  shows "(select_best_edge_node d ns = None \<longrightarrow> should_offload_task d t ns = Inr False)
   \<and> (\<forall>n. select_best_edge_node d ns = Some n
           \<and> bandwidth_mbps (network_params d) \<noteq> 0 \<and> node_mips n \<noteq> 0 \<longrightarrow>
         should_offload_task d t ns
         = Inr (weight_energy (offloading_policy d)
                  * (input_size t / (bandwidth_mbps (network_params d) * 125000)
                     * energy_consumption (network_params d))
                + weight_latency (offloading_policy d)
                  * (latency_ms (network_params d) / 1000
                     + input_size t / (bandwidth_mbps (network_params d) * 125000)
                     + mips_required t / node_mips n)
                + weight_cost (offloading_policy d) * (mips_required t * cost_per_mips n)
                < weight_energy (offloading_policy d)
                  * (mips_required t / mips d * battery_consumption_rate d * 2)
                + weight_latency (offloading_policy d) * (mips_required t / mips d)))"
proof -
  have start: "should_offload_task d t ns = compare_utility d t ns (mips_required t / mips d)"
    using assms by (auto simp: should_offload_task_def payload_rule_def Let_def)
  show ?thesis
    unfolding start by (simp add: compare_utility_def Let_def)
qed

theorem utility_comparison_witness:
  "battery_capacity device0 \<noteq> 0
   \<and> threshold_battery_level (offloading_policy device0)
       \<le> current_battery device0 / battery_capacity device0
   \<and> mips_required task0 \<le> mips device0
   \<and> mips device0 \<noteq> 0
   \<and> input_size task0 \<le> threshold_task_size (offloading_policy device0)
   \<and> select_best_edge_node device0 [node0, node1] = Some node1
   \<and> bandwidth_mbps (network_params device0) \<noteq> 0 \<and> node_mips node1 \<noteq> 0
   \<and> should_offload_task device0 task0 [node0, node1] = Inr True
   \<and> should_offload_task device0 task0 [] = Inr False"
proof -
  have cap: "battery_capacity device0 \<noteq> 0"
    and bat: "threshold_battery_level (offloading_policy device0)
       \<le> current_battery device0 / battery_capacity device0"
    and cpu: "mips_required task0 \<le> mips device0"
    and mips: "mips device0 \<noteq> 0"
    and payload: "input_size task0 \<le> threshold_task_size (offloading_policy device0)"
    by (simp_all add: device0_def task0_def policy0_def)
  have bw: "bandwidth_mbps (network_params device0) \<noteq> 0" and nm: "node_mips node1 \<noteq> 0"
    by (simp_all add: device0_def wifi_def node1_def)
  have none: "select_best_edge_node device0 [] = None"
    by (simp add: select_best_edge_node_def)
  note thm1 = utility_comparison [OF cap bat cpu mips disjI1 [OF payload], of "[node0, node1]"]
  note thm2 = utility_comparison [OF cap bat cpu mips disjI1 [OF payload], of "[]"]
  have "should_offload_task device0 task0 [node0, node1] = Inr True"
    using thm1 [THEN conjunct2, rule_format, of node1] select_best_node0_node1 bw nm
    by (simp add: device0_def task0_def policy0_def wifi_def node1_def)
  moreover have "should_offload_task device0 task0 [] = Inr False"
    using thm2 none by simp
  ultimately show ?thesis
    using cap bat cpu mips payload bw nm select_best_node0_node1 by simp
qed

text \<open>
  C4. \<open>_select_best_edge_node\<close> returns none for the empty list and the only candidate of
  a one-element list; for a non-empty list it returns the first candidate of minimal
  score: the list splits around the result into candidates of strictly greater score
  before it and candidates of at least its score after it. The score is the Euclidean
  distance from the device times the weight of the technology (WiFi 1, BLE 1.5, LTE 0.7,
  5G, spelt \<^verbatim>\<open>FiveG\<close>, 0.5, anything else 1) plus utilization times 100.
\<close>

theorem select_best_edge_node_first_minimum:
  "select_best_edge_node d [] = None
   \<and> select_best_edge_node d [n] = Some n
   \<and> (ns \<noteq> [] \<longrightarrow>
        (\<exists>r pre post. select_best_edge_node d ns = Some r \<and> ns = pre @ r # post
           \<and> (\<forall>x\<in>set pre. score d r < score d x)
           \<and> (\<forall>x\<in>set post. score d r \<le> score d x)))
   \<and> score d n
       = sqrt ((fst (location d) - fst (node_location n))\<^sup>2
             + (snd (location d) - snd (node_location n))\<^sup>2)
           * distance_weight (wireless_tech d)
         + utilization n * 100
   \<and> distance_weight ''WiFi'' = 1 \<and> distance_weight ''BLE'' = 3 / 2
   \<and> distance_weight ''LTE'' = 7 / 10 \<and> distance_weight ''FiveG'' = 1 / 2
   \<and> (tech \<notin> {''WiFi'', ''BLE'', ''LTE'', ''FiveG''} \<longrightarrow> distance_weight tech = 1)"
proof -
  have "select_best_edge_node d [] = None"
    by (simp add: select_best_edge_node_def)
  moreover have "select_best_edge_node d [n] = Some n"
    by (simp add: select_best_edge_node_def score_less_def)
  moreover have "ns \<noteq> [] \<longrightarrow>
        (\<exists>r pre post. select_best_edge_node d ns = Some r \<and> ns = pre @ r # post
           \<and> (\<forall>x\<in>set pre. score d r < score d x)
           \<and> (\<forall>x\<in>set post. score d r \<le> score d x))"
    using select_best_first_min [of ns d] by blast
  moreover have "score d n
       = sqrt ((fst (location d) - fst (node_location n))\<^sup>2
             + (snd (location d) - snd (node_location n))\<^sup>2)
           * distance_weight (wireless_tech d)
         + utilization n * 100"
    by (simp add: score_def distance_to_def)
  moreover have "distance_weight ''WiFi'' = 1 \<and> distance_weight ''BLE'' = 3 / 2
   \<and> distance_weight ''LTE'' = 7 / 10 \<and> distance_weight ''FiveG'' = 1 / 2"
    by (simp add: distance_weight_def)
  moreover have "tech \<notin> {''WiFi'', ''BLE'', ''LTE'', ''FiveG''} \<longrightarrow> distance_weight tech = 1"
    by (simp add: distance_weight_def)
  ultimately show ?thesis
    by blast
qed

theorem select_best_edge_node_first_minimum_witness:
  "[node0, node1, node2] \<noteq> []
   \<and> select_best_edge_node device0 [node0, node1, node2] = Some node1
   \<and> score device0 node0 = 50 \<and> score device0 node1 = 25 \<and> score device0 node2 = 25
   \<and> ''Zigbee'' \<notin> {''WiFi'', ''BLE'', ''LTE'', ''FiveG''}
   \<and> distance_weight ''Zigbee'' = 1"
  using select_best_edge_node_first_minimum [of device0 node1 "[node0, node1, node2]" "''Zigbee''"]
  by (simp add: select_best_edge_node_def score_less_def score_node0 score_node1 score_node2)

text \<open>
  C5. For a device with \<open>mips > 0\<close>, \<open>process_task_locally\<close> returns
  \<open>current_time + mips_required / mips\<close>; the task gets \<open>start_time = current_time\<close>, that
  completion time, the status \<^verbatim>\<open>processing\<close> and this device as executor; the device's
  \<open>tasks_processed_locally\<close> grows by 1 and its \<open>energy_consumed\<close> by
  \<open>(mips_required / mips) * battery_consumption_rate * 2\<close>, the amount taken from the
  battery. Nothing else changes.
\<close>

theorem process_task_locally_effect:
  assumes "mips d > 0"
  shows "process_task_locally d t current_time
    = Inr (current_time + mips_required t / mips d,
        d\<lparr>current_battery :=
             current_battery d - (mips_required t / mips d) * battery_consumption_rate d * 2,
          tasks_processed_locally := tasks_processed_locally d + 1,
          energy_consumed :=
             energy_consumed d + (mips_required t / mips d) * battery_consumption_rate d * 2\<rparr>,
        t\<lparr>start_time := Some current_time,
          completion_time := Some (current_time + mips_required t / mips d),
          executed_on := Some (''device_'' @ str_int (device_id d)),
          status := ''processing''\<rparr>)"
  using assms by (simp add: process_task_locally_def Let_def)

theorem process_task_locally_effect_witness:
  "mips device0 > 0
   \<and> process_task_locally device0 task0 3
     = Inr (7 / 2,
         device0\<lparr>current_battery := 999, tasks_processed_locally := 1, energy_consumed := 1\<rparr>,
         task0\<lparr>start_time := Some 3, completion_time := Some (7 / 2),
               executed_on := Some ''device_7'', status := ''processing''\<rparr>)"
proof -
  have pos: "mips device0 > 0"
    by (simp add: device0_def)
  from process_task_locally_effect [OF pos, of task0 3] pos
  show ?thesis
    by (simp add: device0_def task0_def str_int_7)
qed

text \<open>
  C6. As stated, for every device, the claim fails: a device whose \<open>battery_capacity\<close> is 0
  raises \<^verbatim>\<open>ZeroDivisionError\<close> in the battery test, before the task is looked at.
\<close>

theorem capability_rule_counterexample:
  "mips_required (task0\<lparr>mips_required := 2000\<rparr>)
     > mips (device0\<lparr>battery_capacity := 0, current_battery := 0\<rparr>)
   \<and> should_offload_task (device0\<lparr>battery_capacity := 0, current_battery := 0\<rparr>)
        (task0\<lparr>mips_required := 2000\<rparr>) [] = Inl ZeroDivisionError"
  by (simp add: should_offload_task_def device0_def task0_def)

text \<open>
  C6, amended. For every device whose \<open>battery_capacity\<close> is not 0 and every task whose
  \<open>mips_required\<close> strictly exceeds the device's \<open>mips\<close>, \<open>should_offload_task\<close> returns
  true, for every list of candidate nodes.
\<close>

theorem capability_rule_forces_offload:
  assumes "battery_capacity d \<noteq> 0"
    and "mips_required t > mips d"
  shows "should_offload_task d t edge_nodes = Inr True"
  using assms by (simp add: should_offload_task_def)

theorem capability_rule_forces_offload_witness:
  "battery_capacity device0 \<noteq> 0
   \<and> mips_required (task0\<lparr>mips_required := 2000\<rparr>) > mips device0
   \<and> should_offload_task device0 (task0\<lparr>mips_required := 2000\<rparr>) [] = Inr True"
proof -
  have cap: "battery_capacity device0 \<noteq> 0"
    by (simp add: device0_def)
  have big: "mips_required (task0\<lparr>mips_required := 2000\<rparr>) > mips device0"
    by (simp add: device0_def)
  from capability_rule_forces_offload [OF cap big, of "[]"] cap big
  show ?thesis by simp
qed

text \<open>
  C7. As stated the claim fails: \<open>update_battery\<close> has no activity multiplier. With a
  multiplier of 2 the specified operation drains twice what the method drains.
\<close>

theorem update_battery_multiplier_counterexample:
  "update_battery device0 1 \<noteq> charge_spec device0 2 1"
  by (simp add: update_battery_def charge_spec_def device0_def Let_def)

text \<open>
  C7, amended. \<open>update_battery\<close> consumes \<open>battery_consumption_rate \<times> time_elapsed\<close>
  (the specified operation at the fixed activity multiplier 1): it subtracts that amount
  from the battery level, adds the same amount to \<open>energy_consumed\<close>, and if the resulting
  level is at or below 0 it sets the level to exactly 0 and returns false, otherwise it
  returns true.
\<close>

theorem update_battery_charges:
  "update_battery d time_elapsed = charge_spec d 1 time_elapsed
   \<and> energy_consumed (snd (update_battery d time_elapsed))
       = energy_consumed d + battery_consumption_rate d * time_elapsed
   \<and> current_battery (snd (update_battery d time_elapsed))
       = (if current_battery d - battery_consumption_rate d * time_elapsed \<le> 0 then 0
          else current_battery d - battery_consumption_rate d * time_elapsed)
   \<and> fst (update_battery d time_elapsed)
       = (\<not> current_battery d - battery_consumption_rate d * time_elapsed \<le> 0)"
  by (simp add: update_battery_def charge_spec_def Let_def)

text \<open>
  C8. A call of \<open>should_offload_task\<close> leaves the state as it was, also when it raises:
  no field of the device, the task or the nodes changes, and no random number is drawn.
  Its result is the same in two states that hold the same device, task and nodes, whatever
  the state of the random generator is, and two calls in a row return the same result.
  The utilization query of the nodes is any program that returns the utilization of the
  node and changes nothing.
\<close>

theorem should_offload_task_pure:
  assumes query: "\<And>i w. get_util i w = (Inr (utilization (the_nodes w ! i)), w)"
  shows "snd (should_offload_task_m get_util w) = w
   \<and> (the_device w = the_device w' \<and> the_task w = the_task w'
        \<and> the_nodes w = the_nodes w' \<longrightarrow>
      fst (should_offload_task_m get_util w) = fst (should_offload_task_m get_util w'))
   \<and> seq (should_offload_task_m get_util)
        (\<lambda>first. seq (should_offload_task_m get_util) (\<lambda>second. ret (first, second))) w
     = (case fst (should_offload_task_m get_util w) of
          Inl e \<Rightarrow> Inl e | Inr b \<Rightarrow> Inr (b, b), w)"
proof -
  have run: "should_offload_task_m get_util v
      = (should_offload_task (the_device v) (the_task v) (the_nodes v), v)" for v
    using query by (rule should_offload_task_m_reads)
  have "snd (should_offload_task_m get_util w) = w"
    by (simp add: run)
  moreover have "the_device w = the_device w' \<and> the_task w = the_task w'
        \<and> the_nodes w = the_nodes w' \<longrightarrow>
      fst (should_offload_task_m get_util w) = fst (should_offload_task_m get_util w')"
    by (simp add: run)
  moreover have "seq (should_offload_task_m get_util)
        (\<lambda>first. seq (should_offload_task_m get_util) (\<lambda>second. ret (first, second))) w
     = (case fst (should_offload_task_m get_util w) of
          Inl e \<Rightarrow> Inl e | Inr b \<Rightarrow> Inr (b, b), w)"
    by (simp add: seq_def run ret_def split: sum.split)
  ultimately show ?thesis
    by blast
qed

theorem should_offload_task_pure_witness:
  "(\<forall>i w. get_utilization i w = (Inr (utilization (the_nodes w ! i)), w))
   \<and> the_device world1 = the_device world0 \<and> the_task world1 = the_task world0
   \<and> the_nodes world1 = the_nodes world0 \<and> world1 \<noteq> world0
   \<and> should_offload_task_m get_utilization world0 = (Inr True, world0)
   \<and> should_offload_task_m get_utilization world1 = (Inr True, world1)"
proof -
  note inst = should_offload_task_pure [of get_utilization world1 world0,
      OF get_utilization_query]
  have same: "the_device world1 = the_device world0 \<and> the_task world1 = the_task world0
      \<and> the_nodes world1 = the_nodes world0"
    by (simp add: world0_def world1_def)
  have first: "should_offload_task_m get_utilization world0 = (Inr True, world0)"
    using should_offload_task_m_reads [of get_utilization world0, OF get_utilization_query]
    by (simp add: world0_def offload_device0_task0)
  have "fst (should_offload_task_m get_utilization world1) = Inr True"
    using inst same first by simp
  moreover have "snd (should_offload_task_m get_utilization world1) = world1"
    using inst by simp
  ultimately have second: "should_offload_task_m get_utilization world1 = (Inr True, world1)"
    by (simp add: prod_eq_iff)
  have "world1 \<noteq> world0"
    by (simp add: world0_def world1_def)
  then show ?thesis
    using same first second get_utilization_query by simp
qed

text \<open>
  C9. For a device that is not mobile \<open>update_location\<close> returns with the device
  unchanged. For a mobile device it does not terminate normally: it raises
  \<^verbatim>\<open>NameError\<close>, whatever the position, the elapsed time and the angle drawn.
\<close>

theorem update_location_mobile_raises:
  "update_location (device0\<lparr>mobility := True, location := (500, 500)\<rparr>) 1 angle = Inl NameError
   \<and> update_location d time_elapsed angle = (if mobility d then Inl NameError else Inr d)"
  by (simp add: update_location_def)

text \<open>
  C10. When the remaining battery is smaller than the consumption
  \<open>battery_consumption_rate \<times> time_elapsed\<close>, \<open>update_battery\<close> clamps the level to 0 and
  still adds the full consumption to \<open>energy_consumed\<close>, which is more than the level
  dropped by; and a run of calls on a fresh device brings \<open>energy_consumed\<close> strictly above
  \<open>battery_capacity\<close>.
\<close>

theorem update_battery_overcounts:
  "(current_battery d < battery_consumption_rate d * time_elapsed \<longrightarrow>
      current_battery (snd (update_battery d time_elapsed)) = 0
      \<and> energy_consumed (snd (update_battery d time_elapsed)) - energy_consumed d
          = battery_consumption_rate d * time_elapsed
      \<and> energy_consumed (snd (update_battery d time_elapsed)) - energy_consumed d
          > current_battery d - current_battery (snd (update_battery d time_elapsed)))
   \<and> energy_consumed (run_update_battery device0 [600, 600])
       > battery_capacity (run_update_battery device0 [600, 600])"
  by (simp add: update_battery_def Let_def device0_def)

theorem update_battery_overcounts_witness:
  "current_battery (device0\<lparr>current_battery := 400, energy_consumed := 600\<rparr>)
     < battery_consumption_rate (device0\<lparr>current_battery := 400, energy_consumed := 600\<rparr>) * 600
   \<and> snd (update_battery (device0\<lparr>current_battery := 400, energy_consumed := 600\<rparr>) 600)
       = device0\<lparr>current_battery := 0, energy_consumed := 1200\<rparr>"
  using update_battery_overcounts [of "device0\<lparr>current_battery := 400, energy_consumed := 600\<rparr>" 600]
  by (simp add: update_battery_def Let_def device0_def)

end
